theory Spec2Isabelle
  imports Main "HOL-Library.Multiset" "HOL-Library.AList"
begin

section \<open>Shared vocabulary\<close>

text \<open>
  Go strings are byte sequences; they are modelled as \<open>string\<close> (a list of 8-bit
  characters). The body of a response is a list of the same bytes.
\<close>

type_synonym bytes = "char list"

datatype error =
    ErrEmptySize                \<comment> \<open>parseSize: "empty size is not valid"\<close>
  | ErrSyntax                   \<comment> \<open>strconv.ErrSyntax\<close>
  | ErrRange                    \<comment> \<open>strconv.ErrRange\<close>
  | ErrInvalidFileSize int      \<comment> \<open>parseSize: "invalid file size %d"\<close>
  | ErrUnknownChecksum          \<comment> \<open>getChecksumByName: "unkown checksum algorithm %q"\<close>
  | ErrNotSupported string      \<comment> \<open>serveFile: "%q is not a supported checksum algorithm"\<close>
  | ErrCopy int                 \<comment> \<open>serveFile: "io.Copy error count=%d %s"\<close>
  | ErrWrite                    \<comment> \<open>a failed write on the connection\<close>
  | ErrInvalidAlgorithm int     \<comment> \<open>DownloadFile: "invalid requested checksum algorithm %v"\<close>
  | ErrTransport string         \<comment> \<open>DownloadFile: the error of c.Do\<close>
  | ErrDownloading string       \<comment> \<open>DownloadFile: "error downloading file: %q"\<close>
  | ErrServerAlgorithm          \<comment> \<open>DownloadFile: "unexpected server algorithm %q"\<close>
  | ErrMissingContentLength     \<comment> \<open>DownloadFile: "missing 'X-Content-Length' trailer"\<close>
  | ErrLengthMismatch int int   \<comment> \<open>DownloadFile: "response body length %d does not match ..."\<close>
  | ErrMissingChecksumValue     \<comment> \<open>DownloadFile: "missing 'X-Checksum-Value' trailer"\<close>
  | ErrChecksumMismatch         \<comment> \<open>DownloadFile: "computed checksum (%s) and received ..."\<close>

section \<open>Sizes: the constants of server.go and the strconv parsers\<close>

text \<open>\<open>KB int64 = 1 << (10 * iota)\<close> with \<open>iota\<close> = 1, 2, 3, 4.\<close>

definition KB :: int where "KB = 2 ^ 10"
definition MB :: int where "MB = 2 ^ 20"
definition GB :: int where "GB = 2 ^ 30"
definition TB :: int where "TB = 2 ^ 40"

definition maxUint64 :: int where "maxUint64 = 2 ^ 64 - 1"

text \<open>A value computed in \<open>int64\<close>: two's complement wrap-around to 64 bits.\<close>

definition wrap64 :: "int \<Rightarrow> int" where
  "wrap64 x = (x + 2 ^ 63) mod 2 ^ 64 - 2 ^ 63"

definition isDigit :: "char \<Rightarrow> bool" where
  "isDigit c = (48 \<le> (of_char c :: int) \<and> (of_char c :: int) \<le> 57)"

definition digitVal :: "char \<Rightarrow> int" where
  "digitVal c = of_char c - 48"

text \<open>
  The digit loop of \<open>strconv.ParseUint(s, 10, 64)\<close>: a byte that is not a decimal
  digit is a syntax error with value 0; an overflow is a range error with the
  largest value, reported as soon as it is met.
\<close>

fun ParseUint_loop :: "string \<Rightarrow> int \<Rightarrow> int \<times> error option" where
  "ParseUint_loop [] n = (n, None)"
| "ParseUint_loop (c # cs) n =
     (if \<not> isDigit c then (0, Some ErrSyntax)
      else if n \<ge> maxUint64 div 10 + 1 then (maxUint64, Some ErrRange)
      else if n * 10 + digitVal c > maxUint64 then (maxUint64, Some ErrRange)
      else ParseUint_loop cs (n * 10 + digitVal c))"

definition ParseUint :: "string \<Rightarrow> int \<times> error option" where
  "ParseUint s = (if s = [] then (0, Some ErrSyntax) else ParseUint_loop s 0)"

text \<open>\<open>strconv.ParseInt(s, 10, 64)\<close>: an optional sign, then \<open>ParseUint\<close>.\<close>

definition ParseInt :: "string \<Rightarrow> int \<times> error option" where
  "ParseInt s =
     (if s = [] then (0, Some ErrSyntax)
      else
        let neg = (hd s = CHR ''-'');
            s1 = (if hd s = CHR ''+'' \<or> hd s = CHR ''-'' then tl s else s);
            (un, err) = ParseUint s1
        in if err \<noteq> None \<and> err \<noteq> Some ErrRange then (0, err)
           else if \<not> neg \<and> un \<ge> 2 ^ 63 then (2 ^ 63 - 1, Some ErrRange)
           else if neg \<and> un > 2 ^ 63 then (- (2 ^ 63), Some ErrRange)
           else (if neg then wrap64 (- wrap64 un) else wrap64 un, None))"

definition HasSuffix :: "string \<Rightarrow> string \<Rightarrow> bool" where
  "HasSuffix s suffix =
     (length s \<ge> length suffix \<and> drop (length s - length suffix) s = suffix)"

section \<open>The server: parseSize\<close>

definition parseSize :: "string \<Rightarrow> error + int" where
  "parseSize sz =
     (if length sz = 0 then Inl ErrEmptySize
      else
        let (factor, sz1) =
              (if HasSuffix sz ''K'' then (KB, take (length sz - 1) sz)
               else if HasSuffix sz ''M'' then (MB, take (length sz - 1) sz)
               else if HasSuffix sz ''G'' then (GB, take (length sz - 1) sz)
               else (1, sz))
        in case ParseInt sz1 of
             (res, Some err) \<Rightarrow> Inl err
           | (res, None) \<Rightarrow>
               let res1 = wrap64 (res * factor)
               in if res1 \<le> 0 \<or> res1 > TB then Inl (ErrInvalidFileSize res1)
                  else Inr res1)"

section \<open>Text helpers of the standard library\<close>

text \<open>
  \<open>strings.ToLower\<close> as far as the program depends on it: the letters \<open>A\<close>..\<open>Z\<close>
  are mapped to \<open>a\<close>..\<open>z\<close> and every other byte is kept. That is the library
  function on ASCII text. On text outside ASCII the library applies the Unicode
  case mapping, which is not modelled; the program only ever compares a lowered
  string with an algorithm name (\<open>sha256\<close>, \<open>sha512\<close>) or with hexadecimal
  digits, no character outside ASCII is lowered to a character of those, and so
  every comparison comes out as in the program. Beyond the comparisons, the
  lowered text occurs in the program inside three error messages, and in the
  report of a successful download in mode BOTH, where it equals the client's own
  hexadecimal digest. The errors \<open>ErrUnknownChecksum\<close>, \<open>ErrServerAlgorithm\<close> and
  \<open>ErrChecksumMismatch\<close> stand for the kind of error and do not carry that text.
\<close>

definition lowerChar :: "char \<Rightarrow> char" where
  "lowerChar c =
     (if 65 \<le> (of_char c :: int) \<and> (of_char c :: int) \<le> 90
      then char_of ((of_char c :: int) + 32) else c)"

definition ToLower :: "string \<Rightarrow> string" where
  "ToLower s = map lowerChar s"

text \<open>Equality that ignores the case of letters, as a comparison of lowered strings.\<close>

definition EqualFold :: "string \<Rightarrow> string \<Rightarrow> bool" where
  "EqualFold a b = (ToLower a = ToLower b)"

definition hexDigit :: "int \<Rightarrow> char" where
  "hexDigit d = ''0123456789abcdef'' ! nat d"

text \<open>\<open>hex.EncodeToString\<close>: two lower-case hexadecimal digits for each byte.\<close>

definition EncodeToString :: "bytes \<Rightarrow> string" where
  "EncodeToString src =
     concat (map (\<lambda>b. [hexDigit ((of_char b :: int) div 16),
                       hexDigit ((of_char b :: int) mod 16)]) src)"

definition digitChar :: "int \<Rightarrow> char" where
  "digitChar d = char_of (48 + d)"

function FormatUint :: "int \<Rightarrow> string" where
  "FormatUint n =
     (if n < 10 then [digitChar n] else FormatUint (n div 10) @ [digitChar (n mod 10)])"
  by pat_completeness auto
termination
  by (relation "measure nat") auto

declare FormatUint.simps [simp del]

text \<open>\<open>strconv.FormatInt(n, 10)\<close>, which is also what \<open>fmt.Sprintf("%d", n)\<close> prints.\<close>

definition FormatInt :: "int \<Rightarrow> string" where
  "FormatInt n = (if n < 0 then CHR ''-'' # FormatUint (- n) else FormatUint n)"

section \<open>HTTP headers\<close>

text \<open>
  \<open>http.Header\<close> maps a key to its list of values. Every key the program uses is
  written in canonical form already.
\<close>

type_synonym Header = "string \<rightharpoonup> string list"

definition Get :: "Header \<Rightarrow> string \<Rightarrow> string" where
  "Get h key = (case h key of None \<Rightarrow> [] | Some [] \<Rightarrow> [] | Some (v # vs) \<Rightarrow> v)"

definition Set :: "Header \<Rightarrow> string \<Rightarrow> string \<Rightarrow> Header" where
  "Set h key v = h(key \<mapsto> [v])"

definition Add :: "Header \<Rightarrow> string \<Rightarrow> string \<Rightarrow> Header" where
  "Add h key v = h(key \<mapsto> (case h key of None \<Rightarrow> [] | Some vs \<Rightarrow> vs) @ [v])"

section \<open>The checksum registry (fileserver/client.go)\<close>

text \<open>
  A \<open>hash.Hash\<close> is the constructor it was made by and the bytes written to it so
  far. The digest functions themselves (\<open>crypto/sha256\<close>, \<open>crypto/sha512\<close>) belong
  to the standard library and are a parameter \<open>digest\<close> of every function that
  finishes a hash.
\<close>

datatype hashFunc = sha256_New | sha512_New

record hash =
  hfunc :: hashFunc
  hdata :: bytes

definition New :: "hashFunc \<Rightarrow> hash" where
  "New f = \<lparr>hfunc = f, hdata = []\<rparr>"

definition hash_Write :: "hash \<Rightarrow> bytes \<Rightarrow> hash" where
  "hash_Write h p = h\<lparr>hdata := hdata h @ p\<rparr>"

definition Sum :: "(hashFunc \<Rightarrow> bytes \<Rightarrow> bytes) \<Rightarrow> hash \<Rightarrow> bytes" where
  "Sum digest h = digest (hfunc h) (hdata h)"

text \<open>\<open>ChecksumAlgorithm\<close> is a \<open>uint\<close>: any number can be passed as a key.\<close>

type_synonym ChecksumAlgorithm = int

definition NONE :: ChecksumAlgorithm where "NONE = 0"
definition SHA256 :: ChecksumAlgorithm where "SHA256 = 1"
definition SHA512 :: ChecksumAlgorithm where "SHA512 = 2"

datatype ChecksumMode =
  ChecksumNone | ChecksumClientOnly | ChecksumServerOnly | ChecksumClientAndServer

record checksumSpec =
  name :: string
  hashFunc :: hashFunc

definition checksumList :: "(ChecksumAlgorithm \<times> checksumSpec) list" where
  "checksumList =
     [(SHA256, \<lparr>name = ''sha256'', hashFunc = sha256_New\<rparr>),
      (SHA512, \<lparr>name = ''sha512'', hashFunc = sha512_New\<rparr>)]"

definition checksumMap :: "ChecksumAlgorithm \<rightharpoonup> checksumSpec" where
  "checksumMap = map_of checksumList"

definition getChecksumByName :: "string \<Rightarrow> error + hash" where
  "getChecksumByName name0 =
     (let name1 = ToLower name0
      in case find (\<lambda>v. name v = name1) (map snd checksumList) of
           Some v \<Rightarrow> Inr (New (hashFunc v))
         | None \<Rightarrow> Inl ErrUnknownChecksum)"

definition getChecksumByKey :: "ChecksumAlgorithm \<Rightarrow> hash option" where
  "getChecksumByKey key = map_option (\<lambda>v. New (hashFunc v)) (checksumMap key)"

definition getChecksumName :: "ChecksumAlgorithm \<Rightarrow> string" where
  "getChecksumName algo = (case checksumMap algo of Some s \<Rightarrow> name s | None \<Rightarrow> [])"

definition isChecksumAvailable :: "string \<Rightarrow> bool" where
  "isChecksumAvailable name0 =
     (case getChecksumByName name0 of Inr h \<Rightarrow> True | Inl e \<Rightarrow> False)"

section \<open>The server: serveFile\<close>

text \<open>
  The \<open>http.ResponseWriter\<close>: its header map, the body bytes it has accepted, the
  status line once it is fixed, and the connection behind it, which either takes
  every byte (\<open>failAfter = None\<close>) or breaks once \<open>k\<close> body bytes have gone out
  (\<open>failAfter = Some k\<close>).
\<close>

record ResponseWriter =
  hdr :: Header
  written :: bytes
  statusCode :: "int option"
  failAfter :: "int option"

definition WriteHeader :: "ResponseWriter \<Rightarrow> int \<Rightarrow> ResponseWriter" where
  "WriteHeader w code = (if statusCode w = None then w\<lparr>statusCode := Some code\<rparr> else w)"

definition Write :: "ResponseWriter \<Rightarrow> bytes \<Rightarrow> int \<times> error option \<times> ResponseWriter" where
  "Write w p =
     (let w1 = WriteHeader w 200
      in case failAfter w1 of
           None \<Rightarrow> (int (length p), None, w1\<lparr>written := written w1 @ p\<rparr>)
         | Some k \<Rightarrow>
             let room = max 0 (k - int (length (written w1)))
             in if int (length p) \<le> room
                then (int (length p), None, w1\<lparr>written := written w1 @ p\<rparr>)
                else (room, Some ErrWrite, w1\<lparr>written := written w1 @ take (nat room) p\<rparr>))"

definition http_Error :: "ResponseWriter \<Rightarrow> string \<Rightarrow> int \<Rightarrow> ResponseWriter" where
  "http_Error w msg code =
     (let w1 = w\<lparr>hdr := Set (Set (hdr w) ''Content-Type'' ''text/plain; charset=utf-8'')
                            ''X-Content-Type-Options'' ''nosniff''\<rparr>;
          w2 = WriteHeader w1 code
      in snd (snd (Write w2 (msg @ [CHR 0x0A]))))"

text \<open>
  The copy loop of \<open>serveFile\<close>. \<open>pos\<close> is the read position of the
  \<open>bytes.Reader\<close> over the payload buffer, so that \<open>rdr.Len()\<close> is
  \<open>length buf - pos\<close>. \<open>io.CopyN\<close> reads \<open>count\<close> bytes at that position, passes
  them to the hasher when there is one, and writes them to \<open>w\<close>. The loop does
  not end on an empty buffer, hence the option type.
\<close>

partial_function (option) serveFile_loop ::
  "bytes \<Rightarrow> int \<Rightarrow> int \<Rightarrow> hash option \<Rightarrow> ResponseWriter
     \<Rightarrow> ((error + hash option) \<times> ResponseWriter) option" where
  "serveFile_loop buf remain pos hasher w =
     (if remain > 0 then
        (let pos1 = (if int (length buf) - pos = 0 then 0 else pos);
             count = min (int (length buf) - pos1) remain;
             chunk = take (nat count) (drop (nat pos1) buf);
             res = Write w chunk
         in if fst (snd res) \<noteq> None
            then Some (Inl (ErrCopy count),
                       http_Error (snd (snd res)) ''internal server error'' 500)
            else serveFile_loop buf (remain - fst res) (pos1 + count)
                   (map_option (\<lambda>h. hash_Write h chunk) hasher) (snd (snd res)))
      else Some (Inr hasher, w))"

definition StatusOK :: int where "StatusOK = 200"
definition StatusBadRequest :: int where "StatusBadRequest = 400"
definition StatusInternalServerError :: int where "StatusInternalServerError = 500"

definition serveFile ::
  "(hashFunc \<Rightarrow> bytes \<Rightarrow> bytes) \<Rightarrow> bytes \<Rightarrow> ResponseWriter \<Rightarrow> string \<Rightarrow> int \<Rightarrow> string
     \<Rightarrow> ((int \<times> error option) \<times> ResponseWriter) option" where
  "serveFile digest contentsBuffer w fileid size0 checksumAlg =
     (case (if checksumAlg \<noteq> [] then map_sum id Some (getChecksumByName checksumAlg)
            else Inr None) of
        Inl err \<Rightarrow>
          Some ((StatusBadRequest, Some (ErrNotSupported checksumAlg)),
                http_Error w ([CHR 0x22] @ checksumAlg @ [CHR 0x22]
                               @ '' is not a supported checksum algorithm'')
                  StatusBadRequest)
      | Inr hasher \<Rightarrow>
          (let w1 = w\<lparr>hdr := Set (hdr w) ''Content-Type'' ''application/octet-stream''\<rparr>;
               w2 = w1\<lparr>hdr := Set (hdr w1) ''Trailer'' ''X-Content-Length''\<rparr>;
               w3 = (if hasher \<noteq> None
                     then w2\<lparr>hdr := Add (Set (hdr w2) ''X-Checksum-Algorithm'' checksumAlg)
                                        ''Trailer'' ''X-Checksum-Value''\<rparr>
                     else w2)
           in Option.bind (serveFile_loop contentsBuffer size0 0 hasher w3)
                (\<lambda>res. case res of
                   (Inl err, w4) \<Rightarrow> Some ((StatusInternalServerError, Some err), w4)
                 | (Inr hasher1, w4) \<Rightarrow>
                     (let w5 = w4\<lparr>hdr := Set (hdr w4) ''X-Content-Length'' (FormatInt size0)\<rparr>;
                          w6 = (case hasher1 of
                                  None \<Rightarrow> w5
                                | Some h \<Rightarrow>
                                    w5\<lparr>hdr := Set (hdr w5) ''X-Checksum-Value''
                                                 (EncodeToString (Sum digest h))\<rparr>)
                      in Some ((StatusOK, None), w6)))))"

text \<open>
  The body the specification asks for: \<open>n\<close> bytes read from the payload buffer
  round and round, starting at position \<open>pos\<close>.
\<close>

definition cycle_from :: "bytes \<Rightarrow> nat \<Rightarrow> nat \<Rightarrow> bytes" where
  "cycle_from buf pos n = map (\<lambda>i. buf ! ((pos + i) mod length buf)) [0..<n]"

section \<open>The client transport: DownloadFile\<close>

text \<open>
  The request as \<open>DownloadFile\<close> builds it: the fields of the \<open>url.URL\<close> and the
  \<open>url.Values\<close> of its query before they are encoded.
\<close>

record Request =
  Method :: string
  Scheme :: string
  Host :: string
  Path :: string
  Query :: "string \<rightharpoonup> string"

text \<open>
  What comes back for a request. \<open>ErrorBody\<close> is what \<open>ioutil.ReadAll\<close> returns
  on a response that is not 200. On a 200 response the body is copied to the
  caller's sink by \<open>io.Copy\<close>; network and sink decide how that goes, so the
  outcome is part of the input: \<open>copySeen\<close> are the bytes read from the body (the
  ones a tee reader hands to the hasher), \<open>copyWritten\<close> is the count \<open>io.Copy\<close>
  returns, \<open>copyErr\<close> its error.
\<close>

record Response =
  StatusCode :: int
  RespHeader :: Header
  Trailer :: Header
  ErrorBody :: string
  copySeen :: bytes
  copyWritten :: int
  copyErr :: "error option"

datatype DoResult = DoErr error | DoResp Response

text \<open>
  The report, without its three clock readings (\<open>Start\<close>, \<open>End\<close>,
  \<open>TimeToFirstByte\<close>).
\<close>

record DownloadReport =
  Checksum :: string
  Err :: "error option"

text \<open>
  \<open>DownloadFile\<close> is embedded in two parts. \<open>DownloadFile_receive\<close> is the second
  half of the function, from the test of the status code to the final
  \<open>return\<close>: it is entered once \<open>c.Do\<close> has returned a response, with
  \<open>algorithm\<close> the name resolved in the first half.
\<close>

definition DownloadFile_receive ::
  "(hashFunc \<Rightarrow> bytes \<Rightarrow> bytes) \<Rightarrow> Response \<Rightarrow> ChecksumMode \<Rightarrow> ChecksumAlgorithm \<Rightarrow> string
     \<Rightarrow> DownloadReport" where
  "DownloadFile_receive digest resp chkMode chkAlgo algorithm =
     (if StatusCode resp \<noteq> StatusOK
      then \<lparr>Checksum = [], Err = Some (ErrDownloading (ErrorBody resp))\<rparr>
      else
        let serverAlgo = ToLower (Get (RespHeader resp) ''X-Checksum-Algorithm'')
        in if chkMode = ChecksumClientAndServer \<and> algorithm \<noteq> serverAlgo
           then \<lparr>Checksum = [], Err = Some ErrServerAlgorithm\<rparr>
           else
             let chksumer =
                   (if chkMode = ChecksumClientOnly \<or> chkMode = ChecksumClientAndServer
                    then map_option (\<lambda>h. hash_Write h (copySeen resp))
                           (getChecksumByKey chkAlgo)
                    else None);
                 received = copyWritten resp;
                 clientCheckSum =
                   (case chksumer of
                      None \<Rightarrow> []
                    | Some h \<Rightarrow> ToLower (EncodeToString (Sum digest h)));
                 clength = Get (Trailer resp) ''X-Content-Length''
             in if length clength = 0
                then \<lparr>Checksum = [], Err = Some ErrMissingContentLength\<rparr>
                else
                  let bodyLength = fst (ParseUint clength)
                  in if wrap64 bodyLength \<noteq> received
                     then \<lparr>Checksum = [],
                           Err = Some (ErrLengthMismatch bodyLength received)\<rparr>
                     else
                       let serverChecksum =
                             (if chkMode = ChecksumClientAndServer
                              then ToLower (Get (Trailer resp) ''X-Checksum-Value'')
                              else [])
                       in if chkMode = ChecksumClientAndServer \<and> length serverChecksum = 0
                          then \<lparr>Checksum = [], Err = Some ErrMissingChecksumValue\<rparr>
                          else if chkMode = ChecksumClientAndServer
                                  \<and> clientCheckSum \<noteq> serverChecksum
                          then \<lparr>Checksum = [], Err = Some ErrChecksumMismatch\<rparr>
                          else
                            \<lparr>Checksum =
                               (if chkMode \<noteq> ChecksumNone
                                then (if serverChecksum \<noteq> []
                                      then algorithm @ '':'' @ serverChecksum
                                      else algorithm @ '':'' @ clientCheckSum)
                                else []),
                             Err = None\<rparr>)"

text \<open>
  \<open>DownloadFile\<close> returns its report; the second component is the request handed
  to \<open>c.Do\<close>, or \<open>None\<close> when the function returns before it issues one. The
  client \<open>c\<close> is the function from requests to what comes back.
\<close>

definition DownloadFile ::
  "(hashFunc \<Rightarrow> bytes \<Rightarrow> bytes) \<Rightarrow> (Request \<Rightarrow> DoResult) \<Rightarrow> string \<Rightarrow> string \<Rightarrow> int
     \<Rightarrow> ChecksumMode \<Rightarrow> ChecksumAlgorithm \<Rightarrow> DownloadReport \<times> Request option" where
  "DownloadFile digest c serverAddr fileID size0 chkMode chkAlgo =
     (let algorithm = getChecksumName chkAlgo
      in if chkMode \<noteq> ChecksumNone \<and> algorithm = []
         then (\<lparr>Checksum = [], Err = Some (ErrInvalidAlgorithm chkAlgo)\<rparr>, None)
         else
           let doRequestChecksum =
                 (chkMode = ChecksumServerOnly \<or> chkMode = ChecksumClientAndServer);
               q1 = (Map.empty(''id'' \<mapsto> fileID))(''size'' \<mapsto> FormatInt size0);
               q = (if doRequestChecksum then q1(''checksum'' \<mapsto> algorithm) else q1);
               req = \<lparr>Method = ''GET'', Scheme = ''https'', Host = serverAddr,
                      Path = ''/file'', Query = q\<rparr>
           in case c req of
                DoErr err \<Rightarrow> (\<lparr>Checksum = [], Err = Some err\<rparr>, Some req)
              | DoResp resp \<Rightarrow>
                  (DownloadFile_receive digest resp chkMode chkAlgo algorithm, Some req))"


section \<open>The client load engine\<close>

text \<open>
  Modelled from the spec: \<open>minInt\<close>, a helper of package main that is not among the
  sources. The specification says the pool size is clamped to at most
  \<open>1000 \<times> NCPU\<close>, which is the smaller of the two arguments of the call.
\<close>

definition minInt :: "int \<Rightarrow> int \<Rightarrow> int" where
  "minInt x y = (if x < y then x else y)"

record LoadRequest =
  ServerAddrs :: "string list"
  Duration :: int
  Concurrency :: int
  UseHttp1 :: bool
  MeanSize :: int
  StdSize :: int

text \<open>
  The first statements of \<open>clientProcessLoadRequest\<close>, which compute the number
  of workers; \<open>NumCPU\<close> is what \<open>runtime.NumCPU()\<close> returns.
\<close>

definition numWorkers :: "int \<Rightarrow> LoadRequest \<Rightarrow> int" where
  "numWorkers NumCPU req =
     (let n = Concurrency req;
          n1 = (if n \<le> 0 then 2 * NumCPU else n)
      in minInt n1 (1000 * NumCPU))"

text \<open>
  Work items and replies, without the clock readings of the reply. \<open>notAfter\<close>
  and the clock are instants on one time line; \<open>replyTo\<close> names the channel.
\<close>

record DownloadReq =
  seqNumber :: int
  server :: string
  fsclient :: "Request \<Rightarrow> DoResult"
  fileID :: string
  reqSize :: int
  notAfter :: int
  replyTo :: nat

record DownloadResp =
  respSeqNumber :: int
  respSize :: int
  err :: "error option"

definition processDownloadRequest ::
  "(hashFunc \<Rightarrow> bytes \<Rightarrow> bytes) \<Rightarrow> DownloadReq \<Rightarrow> DownloadResp" where
  "processDownloadRequest digest req =
     (let report = fst (DownloadFile digest (fsclient req) (server req) (fileID req)
                          (wrap64 (reqSize req)) ChecksumNone SHA256)
      in \<lparr>respSeqNumber = seqNumber req, respSize = reqSize req, err = Err report\<rparr>)"

text \<open>
  One worker. Its input is the sequence of items it takes from the request
  channel, each with the reading of the clock at that moment; its output is the
  sequence of sends it makes, each with the channel it goes to.
\<close>

fun clientWorker ::
  "(hashFunc \<Rightarrow> bytes \<Rightarrow> bytes) \<Rightarrow> (int \<times> DownloadReq) list \<Rightarrow> (nat \<times> DownloadResp) list" where
  "clientWorker digest [] = []"
| "clientWorker digest ((now, req) # reqChan) =
     (if now > notAfter req then clientWorker digest reqChan
      else (replyTo req, processDownloadRequest digest req) # clientWorker digest reqChan)"

section \<open>The driver: splitAndClean\<close>

text \<open>\<open>strings.Split(s, ",")\<close>: the pieces between commas, one more than commas.\<close>

fun Split :: "string \<Rightarrow> string list" where
  "Split [] = [[]]"
| "Split (c # cs) =
     (if c = CHR '','' then [] # Split cs
      else (case Split cs of [] \<Rightarrow> [[c]] | x # xs \<Rightarrow> (c # x) # xs))"

text \<open>
  A Go map whose keys are ranged over: the association list holds each key
  once, and the loop \<open>for k := range m\<close> visits every key exactly once in an
  order the language leaves open, so any arrangement of the keys can come out.
\<close>

definition range_keys :: "('k \<times> 'v) list \<Rightarrow> 'k list \<Rightarrow> bool" where
  "range_keys m keys = (mset keys = mset (map fst m))"

definition splitAndClean_map :: "string \<Rightarrow> (string \<times> bool) list" where
  "splitAndClean_map s = fold (\<lambda>c m. AList.update c True m) (Split s) []"

definition splitAndClean :: "string \<Rightarrow> string list \<Rightarrow> bool" where
  "splitAndClean s keys = range_keys (splitAndClean_map s) keys"


section \<open>The server: parseSize and serveFile\<close>

lemma parseSize_range: "parseSize s = Inr v \<Longrightarrow> 0 < v \<and> v \<le> TB"
  by (auto simp: parseSize_def Let_def split: if_splits prod.splits option.splits)

lemma parseSize_examples:
  "parseSize ''1K'' = Inr 1024"
  "parseSize ''1M'' = Inr 1048576"
  "parseSize ''1G'' = Inr 1073741824"
  "parseSize ''0'' = Inl (ErrInvalidFileSize 0)"
  "parseSize ''-5'' = Inl (ErrInvalidFileSize (- 5))"
  "parseSize [] = Inl ErrEmptySize"
  "parseSize ''2T'' = Inl ErrSyntax"
  by code_simp+

text \<open>
  Claim C2. \<open>parseSize\<close> is to accept exactly the decimal integers with an
  optional suffix K, M or G, read as a multiple of 1024, 1024 squared or 1024 cubed, and to
  answer with an error whenever that value lies outside (0, 1 TiB]. The product
  \<open>res *= factor\<close> is computed in \<open>int64\<close> and is tested only after it has
  wrapped around: 17179869185 GiB is \<open>2 ^ 64 + 2 ^ 30\<close> bytes, far above 1 TiB, and
  \<open>parseSize\<close> accepts it as 1 GiB.
\<close>

theorem parseSize_overflow:
  "17179869185 * GB > TB \<and> parseSize ''17179869185G'' = Inr 1073741824"
  by code_simp

lemma take_drop_cycle:
  assumes "pos + cnt \<le> length buf"
  shows "take cnt (drop pos buf) = cycle_from buf pos cnt"
proof (rule nth_equalityI)
  show "length (take cnt (drop pos buf)) = length (cycle_from buf pos cnt)"
    using assms by (simp add: cycle_from_def)
next
  fix i assume "i < length (take cnt (drop pos buf))"
  then have i: "i < cnt" by simp
  with assms have "pos + i < length buf" by simp
  then show "take cnt (drop pos buf) ! i = cycle_from buf pos cnt ! i"
    using i by (simp add: cycle_from_def)
qed

lemma cycle_from_append:
  "cycle_from buf pos (a + b) = cycle_from buf pos a @ cycle_from buf (pos + a) b"
proof (rule nth_equalityI)
  show "length (cycle_from buf pos (a + b))
          = length (cycle_from buf pos a @ cycle_from buf (pos + a) b)"
    by (simp add: cycle_from_def)
next
  fix i assume "i < length (cycle_from buf pos (a + b))"
  then have i: "i < a + b" by (simp add: cycle_from_def)
  show "cycle_from buf pos (a + b) ! i
          = (cycle_from buf pos a @ cycle_from buf (pos + a) b) ! i"
  proof (cases "i < a")
    case True
    then show ?thesis using i by (simp add: cycle_from_def nth_append)
  next
    case False
    then have "i - a < b" and "pos + a + (i - a) = pos + i" using i by simp_all
    then show ?thesis using False i by (simp add: cycle_from_def nth_append)
  qed
qed

lemma cycle_from_wrap: "cycle_from buf (length buf) n = cycle_from buf 0 n"
  by (simp add: cycle_from_def)

lemma length_cycle_from: "length (cycle_from buf pos n) = n"
  by (simp add: cycle_from_def)

lemma hash_Write_twice: "hash_Write (hash_Write h a) b = hash_Write h (a @ b)"
  by (simp add: hash_Write_def)

lemma Write_unlimited:
  "failAfter w = None \<Longrightarrow>
     Write w p = (int (length p), None, (WriteHeader w 200)\<lparr>written := written w @ p\<rparr>)"
  by (simp add: Write_def WriteHeader_def Let_def)

text \<open>
  The loop on a connection that takes every byte: it ends, and it has appended
  to the body the next \<open>remain\<close> bytes of the buffer read round and round from
  \<open>pos\<close>, and fed the same bytes to the hasher.
\<close>

lemma serveFile_loop_unlimited:
  assumes "buf \<noteq> []" and "failAfter w = None" and "0 \<le> pos" and "pos \<le> int (length buf)"
  shows "\<exists>w'. serveFile_loop buf remain pos hasher w
            = Some (Inr (if remain > 0
                         then map_option
                                (\<lambda>h. hash_Write h (cycle_from buf (nat pos) (nat remain))) hasher
                         else hasher), w')
          \<and> written w' = written w @ cycle_from buf (nat pos) (nat remain)
          \<and> hdr w' = hdr w \<and> failAfter w' = None"
  using assms
proof (induction "nat remain" arbitrary: remain pos hasher w rule: less_induct)
  case less
  show ?case
  proof (cases "remain > 0")
    case False
    then show ?thesis
      using less.prems(2) by (subst serveFile_loop.simps) (simp add: cycle_from_def)
  next
    case True
    define pos1 where "pos1 = (if int (length buf) - pos = 0 then 0 else pos)"
    define cnt where "cnt = min (int (length buf) - pos1) remain"
    define chunk where "chunk = take (nat cnt) (drop (nat pos1) buf)"
    define w1 where "w1 = (WriteHeader w 200)\<lparr>written := written w @ chunk\<rparr>"
    have len: "0 < int (length buf)" using less.prems(1) by simp
    have pos1: "0 \<le> pos1" "pos1 < int (length buf)"
      using less.prems(3,4) len by (auto simp: pos1_def)
    have cnt: "0 < cnt" "cnt \<le> remain" "pos1 + cnt \<le> int (length buf)"
      using pos1 True by (auto simp: cnt_def)
    have chunk: "chunk = cycle_from buf (nat pos1) (nat cnt)"
      unfolding chunk_def using cnt pos1 by (intro take_drop_cycle) linarith
    have from_pos: "cycle_from buf (nat pos) n = cycle_from buf (nat pos1) n" for n
      using less.prems(4) by (auto simp: pos1_def cycle_from_wrap)
    have wr: "Write w chunk = (cnt, None, w1)"
      using less.prems(2) cnt by (simp add: Write_unlimited w1_def chunk length_cycle_from)
    have w1: "failAfter w1 = None" "hdr w1 = hdr w" "written w1 = written w @ chunk"
      using less.prems(2) by (simp_all add: w1_def WriteHeader_def)
    have step: "serveFile_loop buf remain pos hasher w
        = serveFile_loop buf (remain - cnt) (pos1 + cnt)
            (map_option (\<lambda>h. hash_Write h chunk) hasher) w1"
      apply (subst serveFile_loop.simps)
      apply (simp only: True if_True Let_def flip: pos1_def)
      apply (simp only: flip: cnt_def)
      apply (simp only: flip: chunk_def)
      apply (simp add: wr)
      done
    have "nat (remain - cnt) < nat remain" using cnt by linarith
    from less.hyps [OF this less.prems(1) w1(1), of "pos1 + cnt"
          "map_option (\<lambda>h. hash_Write h chunk) hasher"]
    obtain w' where
      loop: "serveFile_loop buf (remain - cnt) (pos1 + cnt)
               (map_option (\<lambda>h. hash_Write h chunk) hasher) w1
             = Some (Inr (if remain - cnt > 0
                   then map_option
                          (\<lambda>h. hash_Write h
                                  (cycle_from buf (nat (pos1 + cnt)) (nat (remain - cnt))))
                          (map_option (\<lambda>h. hash_Write h chunk) hasher)
                   else map_option (\<lambda>h. hash_Write h chunk) hasher), w')"
      and wr': "written w'
                 = written w1 @ cycle_from buf (nat (pos1 + cnt)) (nat (remain - cnt))"
      and rest: "hdr w' = hdr w1" "failAfter w' = None"
      using pos1 cnt by auto
    have split: "cycle_from buf (nat pos) (nat remain)
        = chunk @ cycle_from buf (nat (pos1 + cnt)) (nat (remain - cnt))"
    proof -
      have r: "nat remain = nat cnt + nat (remain - cnt)" using cnt by linarith
      have p: "nat (pos1 + cnt) = nat pos1 + nat cnt" using pos1 cnt by linarith
      have "cycle_from buf (nat pos) (nat remain)
              = cycle_from buf (nat pos1) (nat cnt + nat (remain - cnt))"
        by (simp only: from_pos r [symmetric])
      also have "\<dots> = chunk @ cycle_from buf (nat pos1 + nat cnt) (nat (remain - cnt))"
        by (simp only: cycle_from_append chunk)
      finally show ?thesis by (simp only: p)
    qed
    show ?thesis
      apply (rule exI [of _ w'])
      using True loop wr' rest w1 split step
      by (cases hasher) (auto simp: hash_Write_twice cycle_from_def)
  qed
qed

text \<open>
  The decimal text that \<open>FormatInt\<close> prints for a number that fits 64 bits is
  read back as that number by \<open>ParseUint\<close>, the parser the client applies to
  the trailer.
\<close>

lemma ParseUint_loop_append:
  "ParseUint_loop (xs @ ys) acc
     = (case ParseUint_loop xs acc of
          (v, None) \<Rightarrow> ParseUint_loop ys v
        | (v, Some e) \<Rightarrow> (v, Some e))"
  by (induction xs arbitrary: acc) auto

lemma digitChar_digit:
  assumes "0 \<le> d" and "d < 10"
  shows "isDigit (digitChar d) \<and> digitVal (digitChar d) = d"
  using assms by (simp add: isDigit_def digitVal_def digitChar_def)

lemma FormatUint_nonempty: "FormatUint n \<noteq> []"
  by (subst FormatUint.simps) simp

lemma ParseUint_loop_FormatUint:
  "0 \<le> n \<Longrightarrow> n \<le> maxUint64 \<Longrightarrow> ParseUint_loop (FormatUint n) 0 = (n, None)"
proof (induction n rule: FormatUint.induct)
  case (1 n)
  show ?case
  proof (cases "n < 10")
    case True
    with "1.prems" digitChar_digit [of n] show ?thesis
      by (subst FormatUint.simps) (simp add: maxUint64_def)
  next
    case False
    have d: "0 \<le> n mod 10" "n mod 10 < 10" by simp_all
    have q: "0 \<le> n div 10" "n div 10 \<le> maxUint64" using "1.prems" by simp_all
    have ih: "ParseUint_loop (FormatUint (n div 10)) 0 = (n div 10, None)"
      using "1.IH" [OF False q] .
    have small: "\<not> n div 10 \<ge> maxUint64 div 10 + 1"
      using "1.prems" by (simp add: maxUint64_def)
    have recomb: "n div 10 * 10 + n mod 10 = n" by simp
    show ?thesis
      apply (subst FormatUint.simps)
      using False ih small recomb "1.prems" digitChar_digit [OF d]
      by (simp add: ParseUint_loop_append)
  qed
qed

lemma ParseUint_FormatInt:
  "0 \<le> n \<Longrightarrow> n \<le> maxUint64 \<Longrightarrow> ParseUint (FormatInt n) = (n, None)"
  by (simp add: ParseUint_def FormatInt_def FormatUint_nonempty ParseUint_loop_FormatUint)

lemma getChecksumByName_available:
  "isChecksumAvailable a \<Longrightarrow> \<exists>h. getChecksumByName a = Inr h"
  by (auto simp: isChecksumAvailable_def split: sum.splits)

text \<open>
  Claim C1. For every size in (0, 1 TiB] and a checksum name that the query
  validation lets through (none, or an available one), \<open>serveFile\<close> on a
  connection that takes every byte returns 200 after it has written exactly
  \<open>size\<close> bytes of body, namely the payload buffer read from its start and
  wrapped at its end, and it sets \<open>X-Content-Length\<close>, announced as a trailer, to
  the decimal representation of \<open>size\<close>, which parses back to \<open>size\<close>. The
  payload buffer is not empty (it is 1 MiB long in the program).
\<close>

theorem serveFile_writes_size:
  assumes "contentsBuffer \<noteq> []" and "0 < size0" and "size0 \<le> TB"
    and "checksumAlg = [] \<or> isChecksumAvailable checksumAlg"
    and "failAfter w = None"
  shows "\<exists>w'. serveFile digest contentsBuffer w fileid size0 checksumAlg
               = Some ((StatusOK, None), w')
     \<and> written w' = written w @ cycle_from contentsBuffer 0 (nat size0)
     \<and> int (length (written w')) = int (length (written w)) + size0
     \<and> hdr w' ''X-Content-Length'' = Some [FormatInt size0]
     \<and> ParseUint (FormatInt size0) = (size0, None)
     \<and> (\<exists>ts. hdr w' ''Trailer'' = Some ts \<and> ''X-Content-Length'' \<in> set ts)"
proof -
  have rt: "ParseUint (FormatInt size0) = (size0, None)"
    using assms(2,3) by (intro ParseUint_FormatInt) (simp_all add: TB_def maxUint64_def)
  obtain hasher where hasher:
    "(if checksumAlg \<noteq> [] then map_sum id Some (getChecksumByName checksumAlg) else Inr None)
       = Inr hasher"
    using assms(4) getChecksumByName_available [of checksumAlg]
    by (cases "checksumAlg = []") auto
  define w3 where "w3 =
    (if hasher \<noteq> None
     then w\<lparr>hdr := Add (Set (Set (Set (hdr w) ''Content-Type'' ''application/octet-stream'')
                                  ''Trailer'' ''X-Content-Length'')
                             ''X-Checksum-Algorithm'' checksumAlg)
                        ''Trailer'' ''X-Checksum-Value''\<rparr>
     else w\<lparr>hdr := Set (Set (hdr w) ''Content-Type'' ''application/octet-stream'')
                        ''Trailer'' ''X-Content-Length''\<rparr>)"
  have w3: "failAfter w3 = None" "written w3 = written w"
    and tr: "\<exists>ts. hdr w3 ''Trailer'' = Some ts \<and> ''X-Content-Length'' \<in> set ts"
    using assms(5) by (auto simp: w3_def Set_def Add_def)
  from serveFile_loop_unlimited [OF assms(1) w3(1), of 0 size0 hasher]
  obtain w4 where loop: "serveFile_loop contentsBuffer size0 0 hasher w3
        = Some (Inr (map_option
                       (\<lambda>h. hash_Write h (cycle_from contentsBuffer 0 (nat size0))) hasher),
                w4)"
    and w4: "written w4 = written w3 @ cycle_from contentsBuffer 0 (nat size0)"
            "hdr w4 = hdr w3"
    using assms(2) by auto
  have unfold: "serveFile digest contentsBuffer w fileid size0 checksumAlg
      = Option.bind (serveFile_loop contentsBuffer size0 0 hasher w3)
          (\<lambda>res. case res of
             (Inl e, w4) \<Rightarrow> Some ((StatusInternalServerError, Some e), w4)
           | (Inr hasher1, w4) \<Rightarrow>
               (let w5 = w4\<lparr>hdr := Set (hdr w4) ''X-Content-Length'' (FormatInt size0)\<rparr>;
                    w6 = (case hasher1 of
                            None \<Rightarrow> w5
                          | Some h \<Rightarrow>
                              w5\<lparr>hdr := Set (hdr w5) ''X-Checksum-Value''
                                           (EncodeToString (Sum digest h))\<rparr>)
                in Some ((StatusOK, None), w6)))"
    unfolding serveFile_def hasher by (simp add: w3_def Let_def)
  show ?thesis
    unfolding unfold loop
    using w4 w3 tr assms(2) rt
    by (cases hasher) (auto simp: Let_def Set_def length_cycle_from)
qed

theorem serveFile_writes_size_witness:
  "\<exists>w'. serveFile (\<lambda>f b. b) ''abc''
           \<lparr>hdr = Map.empty, written = [], statusCode = None, failAfter = None\<rparr>
           ''file-1'' 7 [] = Some ((StatusOK, None), w')
     \<and> written w' = ''abcabca''
     \<and> hdr w' ''X-Content-Length'' = Some [''7'']"
proof -
  have c: "cycle_from ''abc'' 0 7 = ''abcabca''" by code_simp
  have f: "FormatInt 7 = ''7''" by code_simp
  have t: "(7::int) \<le> TB" by (simp add: TB_def)
  from serveFile_writes_size [where contentsBuffer = "''abc''" and ?size0.0 = 7
      and checksumAlg = "[]" and digest = "\<lambda>f b. b" and fileid = "''file-1''"
      and w = "\<lparr>hdr = Map.empty, written = [], statusCode = None, failAfter = None\<rparr>"] t
  show ?thesis by (auto simp: c f)
qed

section \<open>The client transport\<close>

lemma ToLower_getChecksumName: "ToLower (getChecksumName k) = getChecksumName k"
  by (simp add: getChecksumName_def checksumMap_def checksumList_def ToLower_def lowerChar_def)


lemma DownloadFile_issued:
  "snd (DownloadFile digest c addr fid size0 chkMode chkAlgo) = Some req \<Longrightarrow>
     c req = DoResp resp \<Longrightarrow>
     fst (DownloadFile digest c addr fid size0 chkMode chkAlgo)
       = DownloadFile_receive digest resp chkMode chkAlgo (getChecksumName chkAlgo)
     \<and> (chkMode \<noteq> ChecksumNone \<longrightarrow> getChecksumName chkAlgo \<noteq> [])"
  by (auto simp: DownloadFile_def Let_def split: if_splits DoResult.splits)

text \<open>
  Claim C3. In mode BOTH, once a 200 response has arrived, \<open>DownloadFile\<close>
  first compares the \<open>X-Checksum-Algorithm\<close> header with the requested name
  without regard to case and fails with the error for an unexpected server
  algorithm when they differ, whatever the body and the trailers are. It succeeds exactly when, beyond the length
  check, the header matches, the \<open>X-Checksum-Value\<close> trailer is present, and the
  hexadecimal digest of the bytes received equals the trailer without regard to
  case: after a success the value of the server and the value of the client
  agree.
\<close>

theorem DownloadFile_both_checks:
  assumes "snd (DownloadFile digest c addr fid size0 ChecksumClientAndServer chkAlgo) = Some req"
    and "c req = DoResp resp"
    and "StatusCode resp = StatusOK"
  shows "\<exists>spec. checksumMap chkAlgo = Some spec
     \<and> (\<not> EqualFold (Get (RespHeader resp) ''X-Checksum-Algorithm'') (name spec) \<longrightarrow>
          Err (fst (DownloadFile digest c addr fid size0 ChecksumClientAndServer chkAlgo))
            = Some ErrServerAlgorithm)
     \<and> (Err (fst (DownloadFile digest c addr fid size0 ChecksumClientAndServer chkAlgo)) = None
          \<longleftrightarrow> EqualFold (Get (RespHeader resp) ''X-Checksum-Algorithm'') (name spec)
              \<and> Get (Trailer resp) ''X-Content-Length'' \<noteq> []
              \<and> wrap64 (fst (ParseUint (Get (Trailer resp) ''X-Content-Length'')))
                  = copyWritten resp
              \<and> Get (Trailer resp) ''X-Checksum-Value'' \<noteq> []
              \<and> EqualFold (EncodeToString (digest (hashFunc spec) (copySeen resp)))
                   (Get (Trailer resp) ''X-Checksum-Value''))"
proof -
  from DownloadFile_issued [OF assms(1,2)]
  have fst_eq: "fst (DownloadFile digest c addr fid size0 ChecksumClientAndServer chkAlgo)
       = DownloadFile_receive digest resp ChecksumClientAndServer chkAlgo
           (getChecksumName chkAlgo)"
    and nonempty: "getChecksumName chkAlgo \<noteq> []"
    by simp_all
  from nonempty obtain spec where spec: "checksumMap chkAlgo = Some spec"
    and nm: "name spec = getChecksumName chkAlgo"
    by (auto simp: getChecksumName_def split: option.splits)
  have low: "ToLower (name spec) = name spec"
    using ToLower_getChecksumName [of chkAlgo] nm by simp
  have key: "getChecksumByKey chkAlgo = Some (New (hashFunc spec))"
    using spec by (simp add: getChecksumByKey_def)
  show ?thesis
    apply (rule exI [of _ spec])
    using assms(3) nm [symmetric] low key spec
    by (auto simp: fst_eq DownloadFile_receive_def Let_def EqualFold_def ToLower_def
        Sum_def New_def hash_Write_def)
qed

theorem DownloadFile_both_checks_witness:
  "Err (fst (DownloadFile (\<lambda>f b. b)
        (\<lambda>req. DoResp \<lparr>StatusCode = 200,
                         RespHeader = [''X-Checksum-Algorithm'' \<mapsto> [''SHA256'']],
                         Trailer = [''X-Content-Length'' \<mapsto> [''2''],
                                    ''X-Checksum-Value'' \<mapsto> [''4A4b'']],
                         ErrorBody = [], copySeen = ''JK'', copyWritten = 2,
                         copyErr = None\<rparr>)
        ''localhost:5678'' ''test8'' 2 ChecksumClientAndServer SHA256)) = None
   \<and> Err (fst (DownloadFile (\<lambda>f b. b)
        (\<lambda>req. DoResp \<lparr>StatusCode = 200,
                         RespHeader = [''X-Checksum-Algorithm'' \<mapsto> [''sha512'']],
                         Trailer = [''X-Content-Length'' \<mapsto> [''2''],
                                    ''X-Checksum-Value'' \<mapsto> [''4a4b'']],
                         ErrorBody = [], copySeen = ''JK'', copyWritten = 2,
                         copyErr = None\<rparr>)
        ''localhost:5678'' ''test8'' 2 ChecksumClientAndServer SHA256))
      = Some ErrServerAlgorithm"
proof -
  define good where "good = \<lparr>StatusCode = 200,
                         RespHeader = [''X-Checksum-Algorithm'' \<mapsto> [''SHA256'']],
                         Trailer = [''X-Content-Length'' \<mapsto> [''2''],
                                    ''X-Checksum-Value'' \<mapsto> [''4A4b'']],
                         ErrorBody = [], copySeen = ''JK'', copyWritten = 2,
                         copyErr = None\<rparr>"
  define bad where "bad = \<lparr>StatusCode = 200,
                         RespHeader = [''X-Checksum-Algorithm'' \<mapsto> [''sha512'']],
                         Trailer = [''X-Content-Length'' \<mapsto> [''2''],
                                    ''X-Checksum-Value'' \<mapsto> [''4a4b'']],
                         ErrorBody = [], copySeen = ''JK'', copyWritten = 2,
                         copyErr = None\<rparr>"
  define rq where "rq = \<lparr>Method = ''GET'', Scheme = ''https'', Host = ''localhost:5678'',
      Path = ''/file'',
      Query = [''id'' \<mapsto> ''test8'', ''size'' \<mapsto> FormatInt 2, ''checksum'' \<mapsto> ''sha256'']\<rparr>"
  have n: "getChecksumName SHA256 = ''sha256''"
    and m: "checksumMap SHA256 = Some \<lparr>name = ''sha256'', hashFunc = sha256_New\<rparr>"
    by (simp_all add: getChecksumName_def checksumMap_def checksumList_def SHA256_def SHA512_def)
  have issued: "snd (DownloadFile (\<lambda>f b. b) (\<lambda>req. DoResp r) ''localhost:5678'' ''test8'' 2
                   ChecksumClientAndServer SHA256) = Some rq" for r
    by (simp add: DownloadFile_def Let_def n rq_def)
  have p: "wrap64 (fst (ParseUint ''2'')) = 2"
    by (simp add: ParseUint_def isDigit_def digitVal_def maxUint64_def wrap64_def)
  have h: "EncodeToString ''JK'' = ''4a4b''" by code_simp
  have l1: "ToLower ''SHA256'' = ''sha256''" "ToLower ''sha256'' = ''sha256''"
    "ToLower ''sha512'' = ''sha512''" "ToLower ''4A4b'' = ''4a4b''" "ToLower ''4a4b'' = ''4a4b''"
    by code_simp+
  from DownloadFile_both_checks [OF issued [of good], of good] m
  have g: "Err (fst (DownloadFile (\<lambda>f b. b) (\<lambda>req. DoResp good) ''localhost:5678'' ''test8'' 2
                   ChecksumClientAndServer SHA256)) = None"
    by (simp add: good_def StatusOK_def Get_def EqualFold_def p h l1)
  from DownloadFile_both_checks [OF issued [of bad], of bad] m
  have b: "Err (fst (DownloadFile (\<lambda>f b. b) (\<lambda>req. DoResp bad) ''localhost:5678'' ''test8'' 2
                   ChecksumClientAndServer SHA256)) = Some ErrServerAlgorithm"
    by (simp add: bad_def StatusOK_def Get_def EqualFold_def l1)
  from g b show ?thesis by (simp add: good_def bad_def)
qed

text \<open>
  Claim C4. After the copy \<open>DownloadFile\<close> is to fail unless the
  \<open>X-Content-Length\<close> trailer equals the number of bytes copied. The error of
  \<open>strconv.ParseUint\<close> is dropped, so a trailer that is no number at all counts
  as 0: with the trailer \<open>abc\<close> and an empty body the check passes and the
  download is reported as a success.
\<close>

theorem DownloadFile_length_check_misses:
  "ParseUint ''abc'' = (0, Some ErrSyntax)
   \<and> fst (DownloadFile digest
        (\<lambda>req. DoResp \<lparr>StatusCode = 200, RespHeader = Map.empty,
                         Trailer = [''X-Content-Length'' \<mapsto> [''abc'']],
                         ErrorBody = [], copySeen = [], copyWritten = 0, copyErr = None\<rparr>)
        ''localhost:5678'' ''test1'' 1000 ChecksumNone SHA256)
     = \<lparr>Checksum = [], Err = None\<rparr>"
  by (simp add: DownloadFile_def DownloadFile_receive_def Let_def StatusOK_def Get_def
        ParseUint_def isDigit_def wrap64_def)

text \<open>
  Claim C5. \<open>DownloadFile\<close> resolves the name of the algorithm from the key.
  With a mode other than NONE and an empty name it returns an error and issues
  no request. In every other case it issues a GET for \<open>https://server/file\<close>
  whose query carries \<open>id\<close> and \<open>size\<close>, and carries \<open>checksum\<close>, equal to the
  resolved name, if and only if the mode is SERVER_ONLY or BOTH.
\<close>

theorem DownloadFile_request:
  "(chkMode \<noteq> ChecksumNone \<and> getChecksumName chkAlgo = [] \<longrightarrow>
      snd (DownloadFile digest c addr fid size0 chkMode chkAlgo) = None
      \<and> Err (fst (DownloadFile digest c addr fid size0 chkMode chkAlgo)) \<noteq> None)
   \<and> (\<not> (chkMode \<noteq> ChecksumNone \<and> getChecksumName chkAlgo = []) \<longrightarrow>
      (\<exists>req. snd (DownloadFile digest c addr fid size0 chkMode chkAlgo) = Some req
         \<and> Method req = ''GET'' \<and> Scheme req = ''https'' \<and> Host req = addr
         \<and> Path req = ''/file''
         \<and> Query req ''id'' = Some fid
         \<and> Query req ''size'' = Some (FormatInt size0)
         \<and> (''checksum'' \<in> dom (Query req)
              \<longleftrightarrow> chkMode = ChecksumServerOnly \<or> chkMode = ChecksumClientAndServer)
         \<and> (''checksum'' \<in> dom (Query req)
              \<longrightarrow> Query req ''checksum'' = Some (getChecksumName chkAlgo))))"
  by (simp add: DownloadFile_def Let_def split: DoResult.split)

theorem DownloadFile_request_witness:
  "snd (DownloadFile (\<lambda>f b. b) (\<lambda>r. DoErr (ErrTransport ''refused''))
          ''localhost:5678'' ''test3'' 1000 ChecksumServerOnly 345) = None
   \<and> (\<exists>req. snd (DownloadFile (\<lambda>f b. b) (\<lambda>r. DoErr (ErrTransport ''refused''))
                    ''localhost:5678'' ''test7'' 1000 ChecksumServerOnly SHA256) = Some req
          \<and> Host req = ''localhost:5678''
          \<and> Query req ''id'' = Some ''test7''
          \<and> Query req ''checksum'' = Some ''sha256'')
   \<and> (\<exists>req. snd (DownloadFile (\<lambda>f b. b) (\<lambda>r. DoErr (ErrTransport ''refused''))
                    ''localhost:5678'' ''test6'' 1000 ChecksumClientOnly SHA256) = Some req
          \<and> Query req ''checksum'' = None)"
proof -
  have n1: "getChecksumName 345 = []"
    by (simp add: getChecksumName_def checksumMap_def checksumList_def SHA256_def SHA512_def)
  have n2: "getChecksumName SHA256 = ''sha256''"
    by (simp add: getChecksumName_def checksumMap_def checksumList_def SHA256_def SHA512_def)
  from DownloadFile_request [where chkMode = ChecksumServerOnly and chkAlgo = 345
        and digest = "\<lambda>f b. b" and c = "\<lambda>r. DoErr (ErrTransport ''refused'')"
        and addr = "''localhost:5678''" and fid = "''test3''" and ?size0.0 = 1000]
  have a: "snd (DownloadFile (\<lambda>f b. b) (\<lambda>r. DoErr (ErrTransport ''refused''))
          ''localhost:5678'' ''test3'' 1000 ChecksumServerOnly 345) = None"
    using n1 by simp
  from DownloadFile_request [where chkMode = ChecksumServerOnly and chkAlgo = SHA256
        and digest = "\<lambda>f b. b" and c = "\<lambda>r. DoErr (ErrTransport ''refused'')"
        and addr = "''localhost:5678''" and fid = "''test7''" and ?size0.0 = 1000]
  have b: "\<exists>req. snd (DownloadFile (\<lambda>f b. b) (\<lambda>r. DoErr (ErrTransport ''refused''))
                    ''localhost:5678'' ''test7'' 1000 ChecksumServerOnly SHA256) = Some req
          \<and> Host req = ''localhost:5678''
          \<and> Query req ''id'' = Some ''test7''
          \<and> Query req ''checksum'' = Some ''sha256''"
    using n2 by auto
  from DownloadFile_request [where chkMode = ChecksumClientOnly and chkAlgo = SHA256
        and digest = "\<lambda>f b. b" and c = "\<lambda>r. DoErr (ErrTransport ''refused'')"
        and addr = "''localhost:5678''" and fid = "''test6''" and ?size0.0 = 1000]
  have c: "\<exists>req. snd (DownloadFile (\<lambda>f b. b) (\<lambda>r. DoErr (ErrTransport ''refused''))
                    ''localhost:5678'' ''test6'' 1000 ChecksumClientOnly SHA256) = Some req
          \<and> Query req ''checksum'' = None"
    using n2 by auto
  from a b c show ?thesis by blast
qed

text \<open>
  Claim C6. After a successful download in a mode other than NONE the report's
  \<open>Checksum\<close> is to be \<open>algo:hex\<close> with the value the server reported when there
  is one. In mode SERVER_ONLY the \<open>X-Checksum-Value\<close> trailer is never read: the
  server reports \<open>88d4266f\<close> and the report says \<open>sha256:\<close>, with no value at all.
\<close>

theorem DownloadFile_server_only_checksum:
  "fst (DownloadFile digest
        (\<lambda>req. DoResp \<lparr>StatusCode = 200,
                         RespHeader = [''X-Checksum-Algorithm'' \<mapsto> [''sha256'']],
                         Trailer = [''X-Content-Length'' \<mapsto> [''4''],
                                    ''X-Checksum-Value'' \<mapsto> [''88d4266f'']],
                         ErrorBody = [], copySeen = ''abcd'', copyWritten = 4,
                         copyErr = None\<rparr>)
        ''localhost:5678'' ''test7'' 4 ChecksumServerOnly SHA256)
     = \<lparr>Checksum = ''sha256:'', Err = None\<rparr>"
  by (simp add: DownloadFile_def DownloadFile_receive_def Let_def StatusOK_def Get_def
        ParseUint_def isDigit_def digitVal_def maxUint64_def wrap64_def getChecksumName_def
        checksumMap_def checksumList_def SHA256_def SHA512_def)



section \<open>The client load engine and the driver\<close>

text \<open>
  Claim C7. On a machine with at least one CPU the size of the worker pool is
  \<open>2 \<times> NCPU\<close> when \<open>Concurrency\<close> is 0; it always lies between 1 and
  \<open>1000 \<times> NCPU\<close>; a \<open>Concurrency\<close> above \<open>1000 \<times> NCPU\<close> gives \<open>1000 \<times> NCPU\<close>.
\<close>

theorem numWorkers_clamped:
  assumes "1 \<le> NumCPU"
  shows "(Concurrency req = 0 \<longrightarrow> numWorkers NumCPU req = 2 * NumCPU)
       \<and> 1 \<le> numWorkers NumCPU req
       \<and> numWorkers NumCPU req \<le> 1000 * NumCPU
       \<and> (Concurrency req > 1000 * NumCPU \<longrightarrow> numWorkers NumCPU req = 1000 * NumCPU)"
  using assms by (auto simp: numWorkers_def minInt_def Let_def)

theorem numWorkers_clamped_witness:
  "numWorkers 4 \<lparr>ServerAddrs = [''h:1''], Duration = 10, Concurrency = 0, UseHttp1 = False,
                  MeanSize = 100, StdSize = 20\<rparr> = 8
   \<and> numWorkers 4 \<lparr>ServerAddrs = [''h:1''], Duration = 10, Concurrency = 5000,
                    UseHttp1 = False, MeanSize = 100, StdSize = 20\<rparr> = 4000"
  using numWorkers_clamped [of 4 "\<lparr>ServerAddrs = [''h:1''], Duration = 10, Concurrency = 0,
                                   UseHttp1 = False, MeanSize = 100, StdSize = 20\<rparr>"]
     numWorkers_clamped [of 4 "\<lparr>ServerAddrs = [''h:1''], Duration = 10, Concurrency = 5000,
                                UseHttp1 = False, MeanSize = 100, StdSize = 20\<rparr>"]
  by simp

lemma fold_update_keys:
  "distinct (map fst m) \<Longrightarrow>
     distinct (map fst (fold (\<lambda>c m. AList.update c True m) cs m))
     \<and> set (map fst (fold (\<lambda>c m. AList.update c True m) cs m)) = set (map fst m) \<union> set cs"
proof (induction cs arbitrary: m)
  case Nil
  then show ?case by simp
next
  case (Cons c cs)
  have "distinct (map fst (AList.update c True m))"
    using Cons.prems by (rule distinct_update)
  from Cons.IH [OF this] show ?case
    by (auto simp: dom_update)
qed

lemma splitAndClean_map_keys:
  "distinct (map fst (splitAndClean_map s))
   \<and> set (map fst (splitAndClean_map s)) = set (Split s)"
  using fold_update_keys [of "[]" "Split s"] by (simp add: splitAndClean_map_def)

text \<open>\<open>splitAndClean\<close> always returns: some list of keys comes out.\<close>

lemma splitAndClean_total: "\<exists>keys. splitAndClean s keys"
  by (rule exI [of _ "map fst (splitAndClean_map s)"])
     (simp add: splitAndClean_def range_keys_def)

text \<open>
  Claim C8. Whatever order the map is ranged over in, the list that
  \<open>splitAndClean\<close> returns has no duplicates and its set is the set of the
  comma-separated components of the input; for \<open>a,b,a,c\<close> that set is
  \<open>{a, b, c}\<close>.
\<close>

theorem splitAndClean_set:
  assumes "splitAndClean s keys"
  shows "distinct keys \<and> set keys = set (Split s)
       \<and> (s = ''a,b,a,c'' \<longrightarrow> set keys = {''a'', ''b'', ''c''})"
proof -
  from assms have m: "mset keys = mset (map fst (splitAndClean_map s))"
    by (simp add: splitAndClean_def range_keys_def)
  have d: "distinct keys"
    using m splitAndClean_map_keys [of s] by (metis mset_eq_imp_distinct_iff)
  have st: "set keys = set (Split s)"
    using m splitAndClean_map_keys [of s] by (metis mset_eq_setD)
  have "s = ''a,b,a,c'' \<longrightarrow> set keys = {''a'', ''b'', ''c''}"
    using st by auto
  with d st show ?thesis by simp
qed

theorem splitAndClean_set_witness:
  "splitAndClean ''a,b,a,c'' [''c'', ''a'', ''b'']
   \<and> distinct [''c'', ''a'', ''b'']
   \<and> set [''c'', ''a'', ''b''] = {''a'', ''b'', ''c''}"
proof -
  have h: "splitAndClean ''a,b,a,c'' [''c'', ''a'', ''b'']"
    by (simp add: splitAndClean_def range_keys_def splitAndClean_map_def)
  from splitAndClean_set [OF h] h show ?thesis by blast
qed

lemma clientWorker_append:
  "clientWorker digest (xs @ ys) = clientWorker digest xs @ clientWorker digest ys"
  by (induction xs) auto

text \<open>
  Claim C9. For every item a worker takes from the request channel, wherever
  it stands among the others: when the clock is past the item's \<open>notAfter\<close> the
  worker sends nothing for it; otherwise it sends exactly one reply, on the
  item's reply channel, and the reply carries the item's sequence number.
\<close>

theorem clientWorker_reply:
  "(now > notAfter req \<longrightarrow>
      clientWorker digest (before @ (now, req) # after)
        = clientWorker digest before @ clientWorker digest after)
   \<and> (\<not> now > notAfter req \<longrightarrow>
      (\<exists>resp. clientWorker digest (before @ (now, req) # after)
                = clientWorker digest before @ [(replyTo req, resp)]
                    @ clientWorker digest after
             \<and> respSeqNumber resp = seqNumber req))"
  by (simp add: clientWorker_append processDownloadRequest_def Let_def)

theorem clientWorker_reply_witness:
  "\<exists>resp. clientWorker (\<lambda>f b. b)
       [(5, \<lparr>seqNumber = 1, server = ''localhost:5678'',
              fsclient = (\<lambda>r. DoErr (ErrTransport ''refused'')), fileID = ''file-1'',
              reqSize = 100, notAfter = 10, replyTo = 0\<rparr>),
        (11, \<lparr>seqNumber = 2, server = ''localhost:5678'',
               fsclient = (\<lambda>r. DoErr (ErrTransport ''refused'')), fileID = ''file-2'',
               reqSize = 100, notAfter = 10, replyTo = 0\<rparr>)]
     = [(0, resp)] \<and> respSeqNumber resp = 1"
  using clientWorker_reply [where digest = "\<lambda>f b. b" and before = "[]" and now = 5
      and req = "\<lparr>seqNumber = 1, server = ''localhost:5678'',
              fsclient = (\<lambda>r. DoErr (ErrTransport ''refused'')), fileID = ''file-1'',
              reqSize = 100, notAfter = 10, replyTo = 0\<rparr>"
      and after = "[(11, \<lparr>seqNumber = 2, server = ''localhost:5678'',
               fsclient = (\<lambda>r. DoErr (ErrTransport ''refused'')), fileID = ''file-2'',
               reqSize = 100, notAfter = 10, replyTo = 0\<rparr>)]"]
    clientWorker_reply [where digest = "\<lambda>f b. b" and now = 11
      and before = "[(5, \<lparr>seqNumber = 1, server = ''localhost:5678'',
              fsclient = (\<lambda>r. DoErr (ErrTransport ''refused'')), fileID = ''file-1'',
              reqSize = 100, notAfter = 10, replyTo = 0\<rparr>)]"
      and req = "\<lparr>seqNumber = 2, server = ''localhost:5678'',
               fsclient = (\<lambda>r. DoErr (ErrTransport ''refused'')), fileID = ''file-2'',
               reqSize = 100, notAfter = 10, replyTo = 0\<rparr>"
      and after = "[]"]
  by simp

end
